theory Spec2Isabelle
  imports Main "HOL-Library.AList" "HOL-Library.Sublist"
begin

section \<open>The Modpack Bridge (src/bridge.js): data\<close>

text \<open>
  The bridge is a Node.js program: it reads a JSON request, touches the file system and
  fetches files over HTTP. Everything it does beyond computing a value is explicit here:
  \<^item> a request body and a parsed configuration file are values of \<open>json\<close>, with
    JavaScript's truthiness (\<open>truthy\<close>) and member access (\<open>getProp\<close>);
  \<^item> the machine the bridge runs on is an \<open>env\<close>: platform, home directory, the next
    random UUID, the clock, the runtime's JSON functions, what the network answers to a
    request, and which file-system calls fail;
  \<^item> the file system and the requests sent are a \<open>world\<close>, passed through every call and
    returned updated;
  \<^item> every \<open>throw\<close> of the source or of the runtime is a value \<open>Inl e\<close>; a promise ends
    as a \<open>settle\<close>; a request handler ends as an \<open>outcome\<close>.

  Embedded are the device token (lines 20-55), the helpers (lines 63-153) and the
  handler of \<open>POST /install-files\<close> (lines 244-314). The handlers of \<open>GET /status\<close> and
  of the older \<open>POST /install\<close>, the middleware and the logging (\<open>console.log\<close>,
  \<open>console.error\<close>) are left out. One request is handled at a time.
\<close>

datatype json =
    JUndefined
  | JNull
  | JBool bool
  | JNum int
  | JStr string
  | JArr "json list"
  | JObj "(string \<times> json) list"

text \<open>
  \<open>JUndefined\<close> is a member that is absent. Numbers are kept as integers: the bridge only
  tests whether a number is zero. \<open>truthy v\<close> is what \<open>if (v)\<close>, \<open>!v\<close> and \<open>v || w\<close> test.
\<close>

fun truthy :: "json \<Rightarrow> bool" where
  "truthy JUndefined = False"
| "truthy JNull = False"
| "truthy (JBool b) = b"
| "truthy (JNum n) = (n \<noteq> 0)"
| "truthy (JStr s) = (s \<noteq> [])"
| "truthy (JArr xs) = True"
| "truthy (JObj kvs) = True"

text \<open>
  \<open>getProp v k\<close> is \<open>v.k\<close> for the member names the bridge reads (\<open>url\<close>, \<open>fileName\<close>,
  \<open>type\<close>, \<open>token\<close>, \<open>mode\<close>, ...) on a receiver that is neither \<open>null\<close> nor
  \<open>undefined\<close>: a member of an object, \<open>undefined\<close> on everything else.
\<close>

fun getProp :: "json \<Rightarrow> string \<Rightarrow> json" where
  "getProp (JObj kvs) k = (case map_of kvs k of Some v \<Rightarrow> v | None \<Rightarrow> JUndefined)"
| "getProp v k = JUndefined"

datatype call =
    Mkdir string
  | Rm string
  | Open string
  | Write string
  | Unlink string
  | Read string
  | Readdir string
  | Get string

datatype error =
    Unsupported_OS
  | Type_error
  | Fs_error call
  | Download_failed nat
  | Request_error string
  | Invalid_url string

datatype net_result =
    Throws
  | Response nat string
  | ErrorEvent string
  | NoResponse

record env =
  platform :: string
  homedir :: string
  APPDATA :: "string option"
  randomUUID :: string
  isoNow :: string
  JSON_parse :: "string \<Rightarrow> json option"
  JSON_stringify :: "json \<Rightarrow> string"
  client_get :: "bool \<Rightarrow> string \<Rightarrow> net_result"
  fails :: "call \<Rightarrow> bool"

text \<open>
  \<open>client_get env secure url\<close> is what \<open>https.get\<close> (\<open>secure\<close>) or \<open>http.get\<close> does with
  \<open>url\<close>: it throws at once (\<open>Throws\<close>: not a URL, or the wrong protocol for the client),
  calls the response callback with a status code and a body, emits \<open>'error'\<close> on the
  request, or never does either. \<open>fails env c\<close> says that the file-system call \<open>c\<close> fails
  for a reason outside the tree itself (permissions, a file in use, a full disk).
\<close>

subsection \<open>Paths: Node's \<open>path\<close> module, POSIX flavour\<close>

text \<open>
  \<open>path.join\<close> and \<open>path.dirname\<close> belong to Node, not to the repository; they are
  modelled from the behaviour of \<open>path.posix\<close>: \<open>join\<close> puts \<open>/\<close> between its non-empty
  arguments and normalises the result, dropping empty and \<open>.\<close> segments and letting a
  \<open>..\<close> segment cancel the segment before it. (On Windows Node's \<open>path.win32\<close> also
  takes \<open>\\<close> as a separator; that flavour is not modelled.)
\<close>

fun splitOn :: "char \<Rightarrow> string \<Rightarrow> string list" where
  "splitOn sep [] = [[]]"
| "splitOn sep (c # cs) =
     (if c = sep then [] # splitOn sep cs
      else (case splitOn sep cs of s # ss \<Rightarrow> (c # s) # ss | [] \<Rightarrow> [[c]]))"

fun joinWith :: "string \<Rightarrow> string list \<Rightarrow> string" where
  "joinWith sep [] = []"
| "joinWith sep [s] = s"
| "joinWith sep (s # t # ss) = s @ sep @ joinWith sep (t # ss)"

text \<open>
  \<open>normalizeSegs allowAboveRoot res segs\<close>: the segments kept so far are \<open>res\<close>, last
  one first.
\<close>

fun normalizeSegs :: "bool \<Rightarrow> string list \<Rightarrow> string list \<Rightarrow> string list" where
  "normalizeSegs allowAboveRoot res [] = rev res"
| "normalizeSegs allowAboveRoot res (s # ss) =
     (if s = [] \<or> s = ''.'' then normalizeSegs allowAboveRoot res ss
      else if s = ''..'' then
        (case res of
           r # rs \<Rightarrow>
             if r \<noteq> ''..'' then normalizeSegs allowAboveRoot rs ss
             else if allowAboveRoot then normalizeSegs allowAboveRoot (''..'' # res) ss
             else normalizeSegs allowAboveRoot res ss
         | [] \<Rightarrow>
             if allowAboveRoot then normalizeSegs allowAboveRoot [''..''] ss
             else normalizeSegs allowAboveRoot [] ss)
      else normalizeSegs allowAboveRoot (s # res) ss)"

definition isAbsolute :: "string \<Rightarrow> bool" where
  "isAbsolute p = (case p of c # cs \<Rightarrow> c = CHR ''/'' | [] \<Rightarrow> False)"

definition trailingSep :: "string \<Rightarrow> bool" where
  "trailingSep p = (p \<noteq> [] \<and> last p = CHR ''/'')"

definition path_normalize :: "string \<Rightarrow> string" where
  "path_normalize p =
     (if p = [] then ''.''
      else
        let segs = normalizeSegs (\<not> isAbsolute p) [] (splitOn CHR ''/'' p) in
        if segs = [] then
          (if isAbsolute p then ''/'' else if trailingSep p then ''./'' else ''.'')
        else
          (if isAbsolute p then ''/'' else []) @ joinWith ''/'' segs
            @ (if trailingSep p then ''/'' else []))"

definition path_join :: "string list \<Rightarrow> string" where
  "path_join args =
     (let joined = joinWith ''/'' (filter (\<lambda>a. a \<noteq> []) args)
      in if joined = [] then ''.'' else path_normalize joined)"

definition path_dirname :: "string \<Rightarrow> string" where
  "path_dirname p =
     (case p of
        [] \<Rightarrow> ''.''
      | c # cs \<Rightarrow>
          (case dropWhile (\<lambda>d. d \<noteq> CHR ''/'') (dropWhile (\<lambda>d. d = CHR ''/'') (rev cs)) of
             [] \<Rightarrow> if c = CHR ''/'' then ''/'' else ''.''
           | d # rest \<Rightarrow>
               if c = CHR ''/'' \<and> rest = [] then ''//'' else c # rev rest))"

subsection \<open>The file system\<close>

text \<open>
  A path names the node at its key: whether it is absolute, and its normalised segments
  (symbolic links and the working directory are not modelled: a relative path is a key of
  its own). The tree is an association list from keys to nodes, in directory order.
  \<open>calls\<close> lists, oldest first, the changes made to the tree and the requests sent.
\<close>

type_synonym key = "bool \<times> string list"

datatype node = Dir | File string

record world =
  nodes :: "(key \<times> node) list"
  calls :: "call list"

definition fs_key :: "string \<Rightarrow> key" where
  "fs_key p = (isAbsolute p, normalizeSegs (\<not> isAbsolute p) [] (splitOn CHR ''/'' p))"

definition key_within :: "key \<Rightarrow> key \<Rightarrow> bool" where
  "key_within d k = (fst d = fst k \<and> prefix (snd d) (snd k))"

definition parent_key :: "key \<Rightarrow> key" where
  "parent_key k = (fst k, butlast (snd k))"

definition lookup :: "world \<Rightarrow> string \<Rightarrow> node option" where
  "lookup w p = map_of (nodes w) (fs_key p)"

definition existsSync :: "world \<Rightarrow> string \<Rightarrow> bool" where
  "existsSync w p = (lookup w p \<noteq> None)"

definition did :: "call \<Rightarrow> (key \<times> node) list \<Rightarrow> world \<Rightarrow> world" where
  "did c ns w = \<lparr> nodes = ns, calls = calls w @ [c] \<rparr>"

text \<open>
  \<open>fs.mkdirSync(p, { recursive: true })\<close>: every missing ancestor is created; the call
  throws where the path or an ancestor is a file.
\<close>

definition mkdirSync :: "env \<Rightarrow> string \<Rightarrow> world \<Rightarrow> error + world" where
  "mkdirSync env p w =
     (let ks = map (Pair (fst (fs_key p))) (prefixes (snd (fs_key p))) in
      if fails env (Mkdir p)
         \<or> list_ex (\<lambda>k. case map_of (nodes w) k of Some (File c) \<Rightarrow> True | _ \<Rightarrow> False) ks
      then Inl (Fs_error (Mkdir p))
      else Inr (did (Mkdir p)
             (nodes w @ map (\<lambda>k. (k, Dir)) (filter (\<lambda>k. map_of (nodes w) k = None) ks)) w))"

text \<open>
  \<open>fs.rmSync(p, { recursive: true, force: true })\<close>: the node and all below it. A
  removal that fails is taken to change nothing (it may in fact have removed part of the
  tree); no statement below depends on what a failed removal leaves but the directory
  itself.
\<close>

definition rmSync :: "env \<Rightarrow> string \<Rightarrow> world \<Rightarrow> error + world" where
  "rmSync env p w =
     (if fails env (Rm p) then Inl (Fs_error (Rm p))
      else Inr (did (Rm p) (filter (\<lambda>kn. \<not> key_within (fs_key p) (fst kn)) (nodes w)) w))"

text \<open>
  Opening a file for writing (flag \<open>w\<close>) creates or empties it. It fails on a directory
  and where the parent is not a directory.
\<close>

definition writable :: "world \<Rightarrow> string \<Rightarrow> bool" where
  "writable w p =
     (\<not> trailingSep p \<and> snd (fs_key p) \<noteq> [] \<and> last (snd (fs_key p)) \<noteq> ''..''
      \<and> map_of (nodes w) (fs_key p) \<noteq> Some Dir
      \<and> map_of (nodes w) (parent_key (fs_key p)) = Some Dir)"

definition createWriteStream :: "env \<Rightarrow> string \<Rightarrow> world \<Rightarrow> error + world" where
  "createWriteStream env p w =
     (if fails env (Open p) \<or> \<not> writable w p then Inl (Fs_error (Open p))
      else Inr (did (Open p) (AList.update (fs_key p) (File []) (nodes w)) w))"

definition writeStream :: "env \<Rightarrow> string \<Rightarrow> string \<Rightarrow> world \<Rightarrow> error + world" where
  "writeStream env p body w =
     (if fails env (Write p) then Inl (Fs_error (Write p))
      else Inr (did (Write p) (AList.update (fs_key p) (File body) (nodes w)) w))"

definition writeFileSync :: "env \<Rightarrow> string \<Rightarrow> string \<Rightarrow> world \<Rightarrow> error + world" where
  "writeFileSync env p content w =
     (if fails env (Write p) \<or> \<not> writable w p then Inl (Fs_error (Write p))
      else Inr (did (Write p) (AList.update (fs_key p) (File content) (nodes w)) w))"

definition readFileSync :: "env \<Rightarrow> string \<Rightarrow> world \<Rightarrow> error + string" where
  "readFileSync env p w =
     (if fails env (Read p) then Inl (Fs_error (Read p))
      else (case lookup w p of Some (File c) \<Rightarrow> Inr c | _ \<Rightarrow> Inl (Fs_error (Read p))))"

definition unlink :: "env \<Rightarrow> string \<Rightarrow> world \<Rightarrow> error + world" where
  "unlink env p w =
     (if fails env (Unlink p) then Inl (Fs_error (Unlink p))
      else (case lookup w p of
              Some (File c) \<Rightarrow> Inr (did (Unlink p) (AList.delete (fs_key p) (nodes w)) w)
            | _ \<Rightarrow> Inl (Fs_error (Unlink p))))"

text \<open>
  \<open>fs.readdirSync(p, { withFileTypes: true })\<close>: the entries of a directory, each with
  its name and whether it is a directory.
\<close>

definition readdirSync :: "env \<Rightarrow> string \<Rightarrow> world \<Rightarrow> error + (string \<times> bool) list" where
  "readdirSync env p w =
     (if fails env (Readdir p) \<or> lookup w p \<noteq> Some Dir then Inl (Fs_error (Readdir p))
      else Inr (map (\<lambda>kn. (last (snd (fst kn)), snd kn = Dir))
                 (filter (\<lambda>kn. snd (fst kn) \<noteq> [] \<and> last (snd (fst kn)) \<noteq> ''..''
                               \<and> parent_key (fst kn) = fs_key p) (nodes w))))"

section \<open>Device token and configuration (lines 20-55)\<close>

definition appDataDir :: "env \<Rightarrow> string" where
  "appDataDir env =
     (case APPDATA env of
        Some a \<Rightarrow> if a \<noteq> [] then a else path_join [homedir env, ''AppData'', ''Roaming'']
      | None \<Rightarrow> path_join [homedir env, ''AppData'', ''Roaming''])"

definition configDir :: "env \<Rightarrow> string" where
  "configDir env =
     (if platform env = ''win32'' then path_join [appDataDir env, ''lexten-minecraft-bridge'']
      else path_join [homedir env, ''.config'', ''lexten-bridge''])"

definition getConfigPath :: "env \<Rightarrow> world \<Rightarrow> error + (string \<times> world)" where
  "getConfigPath env w =
     (if \<not> existsSync w (configDir env) then
        (case mkdirSync env (configDir env) w of
           Inl e \<Rightarrow> Inl e
         | Inr w' \<Rightarrow> Inr (path_join [configDir env, ''device_token.json''], w'))
      else Inr (path_join [configDir env, ''device_token.json''], w))"

text \<open>
  The first \<open>try\<close> block of \<open>getOrCreateDeviceToken\<close> (lines 34-42): the stored token, or
  \<open>None\<close> when the block falls through or an exception is caught and ignored
  (\<open>json.token\<close> on \<open>null\<close> is such an exception).
\<close>

definition readStoredToken :: "env \<Rightarrow> world \<Rightarrow> string \<Rightarrow> json option" where
  "readStoredToken env w configPath =
     (if existsSync w configPath then
        (case readFileSync env configPath w of
           Inl e \<Rightarrow> None
         | Inr content \<Rightarrow>
             (case JSON_parse env content of
                None \<Rightarrow> None
              | Some JNull \<Rightarrow> None
              | Some JUndefined \<Rightarrow> None
              | Some json \<Rightarrow> if truthy (getProp json ''token'') then Some (getProp json ''token'') else None))
      else None)"

definition tokenRecord :: "env \<Rightarrow> json" where
  "tokenRecord env = JObj [(''token'', JStr (randomUUID env)), (''created_at'', JStr (isoNow env))]"

definition getOrCreateDeviceToken :: "env \<Rightarrow> world \<Rightarrow> error + (json \<times> world)" where
  "getOrCreateDeviceToken env w =
     (case getConfigPath env w of
        Inl e \<Rightarrow> Inl e
      | Inr (configPath, w1) \<Rightarrow>
          (case readStoredToken env w1 configPath of
             Some token \<Rightarrow> Inr (token, w1)
           | None \<Rightarrow>
               (case writeFileSync env configPath (JSON_stringify env (tokenRecord env)) w1 of
                  Inl e \<Rightarrow> Inr (JStr (randomUUID env), w1)
                | Inr w2 \<Rightarrow> Inr (JStr (randomUUID env), w2))))"

section \<open>Helpers (lines 63-153)\<close>

definition getMinecraftPath :: "env \<Rightarrow> error + string" where
  "getMinecraftPath env =
     (if platform env = ''win32'' then Inr (path_join [appDataDir env, ''.minecraft''])
      else if platform env = ''darwin'' then
        Inr (path_join [homedir env, ''Library'', ''Application Support'', ''minecraft''])
      else if platform env = ''linux'' then Inr (path_join [homedir env, ''.minecraft''])
      else Inl Unsupported_OS)"

record game_instance =
  inst_id :: string
  inst_name :: string
  inst_path :: string
  inst_kind :: string
  versionFolder :: "string option"

text \<open>
  \<open>folderName.replace(/[^\w\-]+/g, '_')\<close>: from left to right, every match of the
  pattern, a longest run of characters outside \<open>[A-Za-z0-9_-]\<close>, becomes one \<open>_\<close>.
  (A character here is a code unit of the JavaScript string; the pattern has no flag that
  would change the class, so every code unit outside ASCII is outside it.)
\<close>

definition isWordOrDash :: "char \<Rightarrow> bool" where
  "isWordOrDash c =
     (c \<in> set (''abcdefghijklmnopqrstuvwxyz'' @ ''ABCDEFGHIJKLMNOPQRSTUVWXYZ''
                @ ''0123456789'' @ ''_'' @ ''-''))"

function replaceNonWord :: "string \<Rightarrow> string" where
  "replaceNonWord [] = []"
| "replaceNonWord (c # cs) =
     (if isWordOrDash c then c # replaceNonWord cs
      else CHR ''_'' # replaceNonWord (dropWhile (\<lambda>d. \<not> isWordOrDash d) cs))"
  by pat_completeness auto
termination
  by (relation "measure length") (auto simp: less_Suc_eq_le length_dropWhile_le)

definition safeId :: "string \<Rightarrow> string" where
  "safeId folderName = ''ver_'' @ replaceNonWord folderName"

definition defaultInstance :: "string \<Rightarrow> game_instance" where
  "defaultInstance mcPath =
     \<lparr> inst_id = ''default'', inst_name = ''.minecraft (Default)'', inst_path = mcPath,
       inst_kind = ''default'', versionFolder = None \<rparr>"

definition versionInstance :: "string \<Rightarrow> string \<Rightarrow> game_instance" where
  "versionInstance versionsDir folderName =
     \<lparr> inst_id = safeId folderName, inst_name = folderName @ '' (Version Folder)'',
       inst_path = path_join [versionsDir, folderName], inst_kind = ''version'',
       versionFolder = Some folderName \<rparr>"

definition detectInstances :: "env \<Rightarrow> world \<Rightarrow> error + game_instance list" where
  "detectInstances env w =
     (case getMinecraftPath env of
        Inl e \<Rightarrow> Inr []
      | Inr mcPath \<Rightarrow>
          (let versionsDir = path_join [mcPath, ''versions''] in
           if existsSync w versionsDir then
             (case readdirSync env versionsDir w of
                Inl e \<Rightarrow> Inl e
              | Inr entries \<Rightarrow>
                  Inr (defaultInstance mcPath
                       # map (\<lambda>d. versionInstance versionsDir (fst d)) (filter snd entries)))
           else Inr [defaultInstance mcPath]))"

definition ensureDir :: "env \<Rightarrow> string \<Rightarrow> world \<Rightarrow> error + world" where
  "ensureDir env dir w = (if \<not> existsSync w dir then mkdirSync env dir w else Inr w)"

text \<open>
  How the promise of \<open>downloadFile\<close> ends: resolved, rejected with an error, never
  settled, or the process is gone first, because the write stream emitted \<open>'error'\<close> and
  the source listens for no such event.
\<close>

datatype settle = Resolved | Rejected error | Uncaught error | Pending

definition closeAndUnlink :: "env \<Rightarrow> string \<Rightarrow> world \<Rightarrow> world" where
  "closeAndUnlink env destPath w = (case unlink env destPath w of Inl e \<Rightarrow> w | Inr w' \<Rightarrow> w')"

definition sent :: "string \<Rightarrow> world \<Rightarrow> world" where
  "sent u w = w\<lparr> calls := calls w @ [Get u] \<rparr>"

text \<open>
  \<open>downloadFile\<close>, run until nothing is left to do: the world returned is the one after
  the callbacks registered by the call have run (the destination is unlinked in a
  callback of \<open>file.close\<close>, after \<open>reject\<close>). The stream opens its file by itself
  after \<open>fs.createWriteStream\<close> returns; where that fails the process ends whatever the
  request does, so the opening is taken first. An exception thrown in the executor
  (\<open>ensureDir\<close>, \<open>url.startsWith\<close> on a value that is not a string, \<open>client.get\<close> on
  what is not a URL) rejects the promise.
\<close>

definition downloadFile :: "env \<Rightarrow> json \<Rightarrow> string \<Rightarrow> world \<Rightarrow> settle \<times> world" where
  "downloadFile env url destPath w =
     (case ensureDir env (path_dirname destPath) w of
        Inl e \<Rightarrow> (Rejected e, w)
      | Inr w1 \<Rightarrow>
          (case createWriteStream env destPath w1 of
             Inl e \<Rightarrow>
               (case url of
                  JStr u \<Rightarrow>
                    (case client_get env (take 6 u = ''https:'') u of
                       Throws \<Rightarrow> (Uncaught e, w1)
                     | r \<Rightarrow> (Uncaught e, sent u w1))
                | v \<Rightarrow> (Uncaught e, w1))
           | Inr w2 \<Rightarrow>
               (case url of
                  JStr u \<Rightarrow>
                    (case client_get env (take 6 u = ''https:'') u of
                       Throws \<Rightarrow> (Rejected (Invalid_url u), w2)
                     | Response statusCode body \<Rightarrow>
                         if statusCode \<noteq> 200 then
                           (Rejected (Download_failed statusCode),
                            closeAndUnlink env destPath (sent u w2))
                         else
                           (case writeStream env destPath body (sent u w2) of
                              Inl e \<Rightarrow> (Uncaught e, sent u w2)
                            | Inr w3 \<Rightarrow> (Resolved, w3))
                     | ErrorEvent err \<Rightarrow>
                         (Rejected (Request_error err), closeAndUnlink env destPath (sent u w2))
                     | NoResponse \<Rightarrow> (Pending, sent u w2))
                | v \<Rightarrow> (Rejected Type_error, w2))))"

section \<open>Per-file install: POST /install-files (lines 244-314)\<close>

datatype outcome =
    Success bool
  | ClientError
  | ServerError error
  | Crash
  | NoReply

text \<open>
  \<open>Success t\<close> is the reply \<open>{ success: true }\<close>, the process exiting a second later when
  \<open>t\<close>; \<open>ClientError\<close> is status 400 with \<open>No items to install.\<close>; \<open>ServerError e\<close> is status
  500 with the message of \<open>e\<close>.
\<close>

definition orElse :: "'a option \<Rightarrow> 'a option \<Rightarrow> 'a option" where
  "orElse a b = (case a of Some x \<Rightarrow> Some x | None \<Rightarrow> b)"

definition first :: "'a list \<Rightarrow> 'a option" where
  "first xs = (case xs of [] \<Rightarrow> None | x # ys \<Rightarrow> Some x)"

text \<open>Lines 255-270: \<open>rootDir\<close>, which is \<open>gameDir\<close> itself when that is truthy.\<close>

definition resolveRoot :: "env \<Rightarrow> world \<Rightarrow> json \<Rightarrow> json \<Rightarrow> error + json" where
  "resolveRoot env w gameDir instanceId =
     (if truthy gameDir then Inr gameDir
      else
        (case detectInstances env w of
           Inl e \<Rightarrow> Inl e
         | Inr instances \<Rightarrow>
             (case orElse (find (\<lambda>i. JStr (inst_id i) = instanceId) instances)
                     (orElse (find (\<lambda>i. inst_id i = ''default'') instances) (first instances)) of
                None \<Rightarrow>
                  (case getMinecraftPath env of Inl e \<Rightarrow> Inl e | Inr p \<Rightarrow> Inr (JStr p))
              | Some target \<Rightarrow> Inr (JStr (inst_path target)))))"

text \<open>
  Line 272, \<open>ensureDir(rootDir)\<close>: on a value that is not a string \<open>fs.existsSync\<close>
  answers \<open>false\<close> and \<open>fs.mkdirSync\<close> throws a \<open>TypeError\<close>.
\<close>

definition ensureRoot :: "env \<Rightarrow> json \<Rightarrow> world \<Rightarrow> error + (string \<times> world)" where
  "ensureRoot env rootDir w =
     (case rootDir of
        JStr root \<Rightarrow> (case ensureDir env root w of Inl e \<Rightarrow> Inl e | Inr w' \<Rightarrow> Inr (root, w'))
      | v \<Rightarrow> Inl Type_error)"

definition wellKnown :: "string list" where
  "wellKnown = [''mods'', ''config'', ''resourcepacks'']"

definition resetFolder :: "env \<Rightarrow> string \<Rightarrow> string \<Rightarrow> world \<Rightarrow> world" where
  "resetFolder env rootDir folder w =
     (let target = path_join [rootDir, folder] in
      if existsSync w target then
        (case rmSync env target w of Inl e \<Rightarrow> w | Inr w' \<Rightarrow> w')
      else w)"

text \<open>Lines 275-284: the reset step.\<close>

definition resetStep :: "env \<Rightarrow> string \<Rightarrow> json \<Rightarrow> world \<Rightarrow> world" where
  "resetStep env rootDir mode w =
     (if mode = JStr ''full'' then fold (resetFolder env rootDir) wellKnown w else w)"

definition skipped :: "json \<Rightarrow> bool" where
  "skipped item =
     (\<not> (truthy item \<and> truthy (getProp item ''url'') \<and> truthy (getProp item ''fileName'')))"

definition subFolder :: "json \<Rightarrow> string" where
  "subFolder item =
     (let type = (if truthy (getProp item ''type'') then getProp item ''type'' else JStr ''mod'') in
      if type = JStr ''resourcepack'' then ''resourcepacks''
      else if type = JStr ''config'' then ''config''
      else ''mods'')"

definition folderPath :: "string \<Rightarrow> json \<Rightarrow> string" where
  "folderPath rootDir item = path_join [rootDir, subFolder item]"

text \<open>
  Line 296: \<open>path.join(folderPath, item.fileName)\<close>; \<open>path.join\<close> throws a \<open>TypeError\<close>
  on an argument that is not a string.
\<close>

definition destPath :: "string \<Rightarrow> json \<Rightarrow> error + string" where
  "destPath rootDir item =
     (case getProp item ''fileName'' of
        JStr fileName \<Rightarrow> Inr (path_join [folderPath rootDir item, fileName])
      | v \<Rightarrow> Inl Type_error)"

text \<open>Lines 287-300: the loop over the items, left at the first download that fails.\<close>

fun placeItems :: "env \<Rightarrow> string \<Rightarrow> json list \<Rightarrow> world \<Rightarrow> settle \<times> world" where
  "placeItems env rootDir [] w = (Resolved, w)"
| "placeItems env rootDir (item # items) w =
     (if skipped item then placeItems env rootDir items w
      else
        (case destPath rootDir item of
           Inl e \<Rightarrow> (Rejected e, w)
         | Inr dest \<Rightarrow>
             (case downloadFile env (getProp item ''url'') dest w of
                (Resolved, w') \<Rightarrow> placeItems env rootDir items w'
              | (r, w') \<Rightarrow> (r, w'))))"

definition respond :: "json \<Rightarrow> settle \<times> world \<Rightarrow> outcome \<times> world" where
  "respond autoTerminate r =
     (case fst r of
        Resolved \<Rightarrow> (Success (truthy autoTerminate), snd r)
      | Rejected e \<Rightarrow> (ServerError e, snd r)
      | Uncaught e \<Rightarrow> (Crash, snd r)
      | Pending \<Rightarrow> (NoReply, snd r))"

text \<open>
  The handler, on the parsed request body. \<open>field body k\<close> is the variable \<open>k\<close> of the
  destructuring of \<open>req.body || {}\<close> (line 245); \<open>noItems\<close> is the test of line 247,
  \<open>!Array.isArray(items) || items.length === 0\<close>.
\<close>

definition field :: "json \<Rightarrow> string \<Rightarrow> json" where
  "field body k = getProp (if truthy body then body else JObj []) k"

definition noItems :: "json \<Rightarrow> bool" where
  "noItems items = (case items of JArr xs \<Rightarrow> xs = [] | v \<Rightarrow> True)"

definition elements :: "json \<Rightarrow> json list" where
  "elements items = (case items of JArr xs \<Rightarrow> xs | v \<Rightarrow> [])"

definition installFiles :: "env \<Rightarrow> world \<Rightarrow> json \<Rightarrow> outcome \<times> world" where
  "installFiles env w body =
     (if noItems (field body ''items'') then (ClientError, w)
      else
        (case resolveRoot env w (field body ''gameDir'') (field body ''instanceId'') of
           Inl e \<Rightarrow> (ServerError e, w)
         | Inr rootDir \<Rightarrow>
             (case ensureRoot env rootDir w of
                Inl e \<Rightarrow> (ServerError e, w)
              | Inr (root, w1) \<Rightarrow>
                  respond (field body ''autoTerminate'')
                    (placeItems env root (elements (field body ''items''))
                       (resetStep env root (field body ''mode'') w1)))))"

section \<open>Statements of the specification\<close>

text \<open>
  The identifier of a version folder as the specification words it: every character
  outside \<open>[A-Za-z0-9_-]\<close> replaced by an underscore, after the prefix \<open>ver_\<close>.
\<close>

definition underscored :: "char \<Rightarrow> char" where
  "underscored c = (if isWordOrDash c then c else CHR ''_'')"

definition spec_safeId :: "string \<Rightarrow> string" where
  "spec_safeId folderName = ''ver_'' @ map underscored folderName"

text \<open>
  \<open>squeeze s\<close> keeps one character of every run of characters outside
  \<open>[A-Za-z0-9_-]\<close>: a character outside the class is dropped when the character before
  it is outside the class too.
\<close>

fun squeeze :: "string \<Rightarrow> string" where
  "squeeze (c # d # cs) =
     (if \<not> isWordOrDash c \<and> \<not> isWordOrDash d then squeeze (c # cs) else c # squeeze (d # cs))"
| "squeeze cs = cs"

text \<open>
  The precedence of root resolution as the specification words it: an explicit root
  verbatim; else the discovered instance with the given identifier; else the one with
  identifier \<open>default\<close>; else the first discovered instance; else the platform's base
  path. The discovery and the base path are arguments: either may have failed.
\<close>

definition spec_resolve ::
  "json \<Rightarrow> json \<Rightarrow> error + game_instance list \<Rightarrow> error + string \<Rightarrow> error + json" where
  "spec_resolve explicitRoot identifier discovered basePath =
     (if truthy explicitRoot then Inr explicitRoot
      else
        (case discovered of
           Inl e \<Rightarrow> Inl e
         | Inr instances \<Rightarrow>
             if list_ex (\<lambda>i. JStr (inst_id i) = identifier) instances then
               Inr (JStr (inst_path (hd (filter (\<lambda>i. JStr (inst_id i) = identifier) instances))))
             else if list_ex (\<lambda>i. inst_id i = ''default'') instances then
               Inr (JStr (inst_path (hd (filter (\<lambda>i. inst_id i = ''default'') instances))))
             else if instances \<noteq> [] then Inr (JStr (inst_path (hd instances)))
             else (case basePath of Inl e \<Rightarrow> Inl e | Inr p \<Rightarrow> Inr (JStr p))))"


subsection \<open>Relations between the world before and after\<close>

definition isDir :: "world \<Rightarrow> key \<Rightarrow> bool" where
  "isDir w k = (map_of (nodes w) k = Some Dir)"

definition noRm :: "world \<Rightarrow> world \<Rightarrow> bool" where
  "noRm w w' = (\<forall>p. Rm p \<in> set (calls w') \<longrightarrow> Rm p \<in> set (calls w))"

definition keeps :: "world \<Rightarrow> world \<Rightarrow> bool" where
  "keeps w w' = ((\<forall>k. isDir w k \<longrightarrow> isDir w' k) \<and> noRm w w')"



subsection \<open>A machine and some requests\<close>

text \<open>
  A Linux machine with a game directory that holds one mod and one version folder. Its
  server has \<open>a.jar\<close> and answers 404 to everything else; its JSON functions are enough
  for a token record whose members have no blank.
\<close>

definition exampleStringify :: "json \<Rightarrow> string" where
  "exampleStringify v =
     (case getProp v ''token'' of
        JStr t \<Rightarrow> (case getProp v ''created_at'' of JStr d \<Rightarrow> t @ '' '' @ d | x \<Rightarrow> ''null'')
      | x \<Rightarrow> ''null'')"

definition exampleParse :: "string \<Rightarrow> json option" where
  "exampleParse s =
     (case splitOn CHR '' '' s of
        [t, d] \<Rightarrow> Some (JObj [(''token'', JStr t), (''created_at'', JStr d)])
      | xs \<Rightarrow> None)"

definition exampleEnv :: env where
  "exampleEnv =
     \<lparr> platform = ''linux'', homedir = ''/home/u'', APPDATA = None,
       randomUUID = ''123e4567-e89b-42d3-a456-426614174000'',
       isoNow = ''2024-01-01T00:00:00.000Z'',
       JSON_parse = exampleParse, JSON_stringify = exampleStringify,
       client_get = (\<lambda>secure u. if u = ''http://x/a.jar'' then Response 200 ''AAA''
                                  else Response 404 []),
       fails = (\<lambda>c. False) \<rparr>"

definition exampleWorld :: world where
  "exampleWorld =
     \<lparr> nodes =
         [((True, []), Dir),
          ((True, [''home'']), Dir),
          ((True, [''home'', ''u'']), Dir),
          ((True, [''home'', ''u'', ''.minecraft'']), Dir),
          ((True, [''home'', ''u'', ''.minecraft'', ''mods'']), Dir),
          ((True, [''home'', ''u'', ''.minecraft'', ''mods'', ''old.jar'']), File ''old''),
          ((True, [''home'', ''u'', ''.minecraft'', ''versions'']), Dir),
          ((True, [''home'', ''u'', ''.minecraft'', ''versions'', ''1.20.1 (fabric)'']), Dir)],
       calls = [] \<rparr>"

definition exampleItem :: "string \<Rightarrow> string \<Rightarrow> string \<Rightarrow> json" where
  "exampleItem type url fileName =
     JObj [(''type'', JStr type), (''url'', JStr url), (''fileName'', JStr fileName)]"

definition exampleRequest :: "string \<Rightarrow> json list \<Rightarrow> json" where
  "exampleRequest mode items =
     JObj [(''mode'', JStr mode), (''instanceId'', JStr ''default''), (''items'', JArr items)]"


text \<open>
  The same machine where something fails: the folder \<open>mods\<close> is in use and cannot be
  removed; a file cannot be unlinked; the token file cannot be written; the configuration
  directory cannot be created. And what the machine looks like once the configuration
  directory is there, and once the token file is there.
\<close>

definition busyEnv :: env where
  "busyEnv = exampleEnv\<lparr> fails := (\<lambda>c. c = Rm ''/home/u/.minecraft/mods'') \<rparr>"

definition lockedEnv :: env where
  "lockedEnv = exampleEnv\<lparr> fails := (\<lambda>c. c = Unlink ''/home/u/.minecraft/mods/b.jar'') \<rparr>"



definition freebsdEnv :: env where
  "freebsdEnv = exampleEnv\<lparr> platform := ''freebsd'' \<rparr>"

definition laterEnv :: env where
  "laterEnv = exampleEnv\<lparr> randomUUID := ''9f8e7d6c-5b4a-4c3d-8e2f-1a0b9c8d7e6f'',
                           isoNow := ''2024-03-05T10:00:00.000Z'' \<rparr>"

definition configuredWorld :: world where
  "configuredWorld =
     \<lparr> nodes = nodes exampleWorld
         @ [((True, [''home'', ''u'', ''.config'']), Dir),
            ((True, [''home'', ''u'', ''.config'', ''lexten-bridge'']), Dir)],
       calls = [Mkdir ''/home/u/.config/lexten-bridge''] \<rparr>"

definition tokenWorld :: world where
  "tokenWorld =
     \<lparr> nodes = nodes configuredWorld
         @ [((True, [''home'', ''u'', ''.config'', ''lexten-bridge'', ''device_token.json'']),
             File ''123e4567-e89b-42d3-a456-426614174000 2024-01-01T00:00:00.000Z'')],
       calls = [Mkdir ''/home/u/.config/lexten-bridge'',
                Write ''/home/u/.config/lexten-bridge/device_token.json''] \<rparr>"

definition freshTokenWorld :: world where
  "freshTokenWorld = \<lparr> nodes = nodes tokenWorld, calls = [] \<rparr>"

section \<open>Instance identifiers\<close>

lemma squeeze_word: "isWordOrDash c \<Longrightarrow> squeeze (c # cs) = c # squeeze cs"
  by (cases cs) simp_all

lemma squeeze_run:
  "\<not> isWordOrDash c \<Longrightarrow> squeeze (c # cs) = c # squeeze (dropWhile (\<lambda>d. \<not> isWordOrDash d) cs)"
  by (induction cs) simp_all

lemma replaceNonWord_squeeze: "replaceNonWord s = map underscored (squeeze s)"
  by (induction s rule: replaceNonWord.induct)
     (simp_all add: squeeze_word squeeze_run underscored_def)

text \<open>
  C7, as the code has it. The identifier of a version folder is \<open>ver_\<close> followed by the
  folder name in which every run of characters outside \<open>[A-Za-z0-9_-]\<close> has become one
  underscore (the pattern is \<open>[^\w\-]+\<close>, so a run of several such characters gives one
  underscore, not one each). Where the name has no two such characters in a row, this is
  the identifier of the specification.
\<close>

theorem safeId_runs:
  "safeId folderName = ''ver_'' @ map underscored (squeeze folderName)
   \<and> (squeeze folderName = folderName \<longrightarrow> safeId folderName = spec_safeId folderName)"
  by (simp add: safeId_def spec_safeId_def replaceNonWord_squeeze)

theorem safeId_runs_witness:
  "squeeze ''1.20.1-forge'' = ''1.20.1-forge'' \<and> safeId ''1.20.1-forge'' = ''ver_1_20_1-forge''
   \<and> spec_safeId ''1.20.1-forge'' = ''ver_1_20_1-forge''"
  using safeId_runs [of "''1.20.1-forge''"]
  by (simp add: spec_safeId_def underscored_def isWordOrDash_def)

text \<open>
  C7 as stated fails on the folder \<open>1.20.1 (fabric)\<close>: the space and the parenthesis are
  two characters outside the class and give one underscore.
\<close>

theorem safeId_counterexample:
  "safeId ''1.20.1 (fabric)'' = ''ver_1_20_1_fabric_''
   \<and> spec_safeId ''1.20.1 (fabric)'' = ''ver_1_20_1__fabric_''
   \<and> safeId ''1.20.1 (fabric)'' \<noteq> spec_safeId ''1.20.1 (fabric)''"
  by (simp add: safeId_def spec_safeId_def underscored_def isWordOrDash_def)

section \<open>Paths\<close>

subsection \<open>Splitting and joining\<close>

lemma splitOn_not_Nil [simp]: "splitOn sep s \<noteq> []"
  by (induction s) (auto split: list.splits)








subsection \<open>Normalisation\<close>














subsection \<open>The key of a joined path\<close>

lemma isAbsolute_Cons [simp]: "isAbsolute (c # cs) = (c = CHR ''/'')"
  by (simp add: isAbsolute_def)

lemma isAbsolute_Nil [simp]: "\<not> isAbsolute []"
  by (simp add: isAbsolute_def)












section \<open>File-system calls\<close>

lemma nodes_did [simp]: "nodes (did c ns w) = ns"
  by (simp add: did_def)

lemma calls_did [simp]: "calls (did c ns w) = calls w @ [c]"
  by (simp add: did_def)

lemma nodes_sent [simp]: "nodes (sent u w) = nodes w"
  by (simp add: sent_def)

lemma calls_sent [simp]: "calls (sent u w) = calls w @ [Get u]"
  by (simp add: sent_def)

lemma lookup_sent [simp]: "lookup (sent u w) p = lookup w p"
  by (simp add: lookup_def)

lemma existsSync_sent [simp]: "existsSync (sent u w) p = existsSync w p"
  by (simp add: existsSync_def)

lemma key_within_refl [simp]: "key_within k k"
  by (simp add: key_within_def)

lemma map_of_filter_fst:
  "map_of (filter (\<lambda>kn. \<not> key_within d (fst kn)) al) k =
     (if key_within d k then None else map_of al k)"
  by (induction al) auto

lemma map_of_dirs: "map_of (map (\<lambda>k. (k, Dir)) ks) k = (if k \<in> set ks then Some Dir else None)"
  by (induction ks) auto

subsection \<open>Creating directories\<close>

lemma mkdirSync_isDir:
  "mkdirSync env p w = Inr w' \<Longrightarrow> isDir w k \<Longrightarrow> isDir w' k"
  by (auto simp: mkdirSync_def Let_def isDir_def map_add_def split: if_splits)

lemma mkdirSync_calls:
  "mkdirSync env p w = Inr w' \<Longrightarrow> calls w' = calls w @ [Mkdir p]"
  by (auto simp: mkdirSync_def Let_def split: if_splits)

lemma mkdirSync_exists: "mkdirSync env p w = Inr w' \<Longrightarrow> existsSync w' p"
proof -
  assume m: "mkdirSync env p w = Inr w'"
  have "fs_key p \<in> set (map (Pair (fst (fs_key p))) (prefixes (snd (fs_key p))))"
    by (cases "fs_key p") simp
  with m show ?thesis
    by (auto simp: mkdirSync_def Let_def existsSync_def lookup_def map_add_def map_of_dirs
        split: if_splits option.splits)
qed

lemma ensureDir_isDir:
  "ensureDir env p w = Inr w' \<Longrightarrow> isDir w k \<Longrightarrow> isDir w' k"
  by (auto simp: ensureDir_def dest: mkdirSync_isDir split: if_splits)

lemma ensureDir_calls:
  "ensureDir env p w = Inr w' \<Longrightarrow> calls w' = calls w \<or> calls w' = calls w @ [Mkdir p]"
  by (auto simp: ensureDir_def dest: mkdirSync_calls split: if_splits)


subsection \<open>Writing and unlinking files\<close>

lemma createWriteStream_nodes:
  "createWriteStream env p w = Inr w' \<Longrightarrow>
     map_of (nodes w) (fs_key p) \<noteq> Some Dir
     \<and> map_of (nodes w') = (map_of (nodes w))(fs_key p \<mapsto> File [])
     \<and> calls w' = calls w @ [Open p]"
  by (auto simp: createWriteStream_def writable_def update_conv' split: if_splits)

lemma createWriteStream_file:
  "createWriteStream env p w = Inr w' \<Longrightarrow> map_of (nodes w') (fs_key p) = Some (File [])"
  by (auto dest!: createWriteStream_nodes)

lemma createWriteStream_lookup:
  "createWriteStream env p w = Inr w' \<Longrightarrow> lookup w' p = Some (File [])"
  by (simp add: lookup_def createWriteStream_file)

lemma writeStream_nodes:
  "writeStream env p body w = Inr w' \<Longrightarrow>
     map_of (nodes w') = (map_of (nodes w))(fs_key p \<mapsto> File body)
     \<and> calls w' = calls w @ [Write p]"
  by (auto simp: writeStream_def update_conv' split: if_splits)

lemma writeFileSync_lookup:
  "writeFileSync env p content w = Inr w' \<Longrightarrow>
     lookup w' q = (if fs_key q = fs_key p then Some (File content) else lookup w q)"
  by (auto simp: writeFileSync_def lookup_def update_conv' split: if_splits)

lemma writeFileSync_mono:
  "writeFileSync env p content w = Inr w' \<Longrightarrow> existsSync w q \<Longrightarrow> existsSync w' q"
  by (simp add: existsSync_def writeFileSync_lookup)

lemma unlink_nodes:
  "unlink env p w = Inr w' \<Longrightarrow>
     map_of (nodes w) (fs_key p) \<noteq> Some Dir
     \<and> map_of (nodes w') = (map_of (nodes w))(fs_key p := None)
     \<and> calls w' = calls w @ [Unlink p]"
  by (auto simp: unlink_def lookup_def delete_conv' split: if_splits option.splits node.splits)

lemma closeAndUnlink_nodes:
  "map_of (nodes (closeAndUnlink env p w)) = map_of (nodes w)
   \<or> (map_of (nodes w) (fs_key p) \<noteq> Some Dir
      \<and> map_of (nodes (closeAndUnlink env p w)) = (map_of (nodes w))(fs_key p := None))"
  by (auto simp: closeAndUnlink_def dest: unlink_nodes split: sum.splits)

lemma closeAndUnlink_calls:
  "calls (closeAndUnlink env p w) = calls w \<or> calls (closeAndUnlink env p w) = calls w @ [Unlink p]"
  by (auto simp: closeAndUnlink_def dest: unlink_nodes split: sum.splits)

lemma closeAndUnlink_removes:
  "\<not> fails env (Unlink p) \<Longrightarrow> lookup w p \<noteq> Some Dir \<Longrightarrow>
     \<not> existsSync (closeAndUnlink env p w) p"
  by (auto simp: closeAndUnlink_def unlink_def existsSync_def lookup_def delete_conv'
      split: option.splits node.splits)

lemma closeAndUnlink_stays:
  "fails env (Unlink p) \<Longrightarrow> closeAndUnlink env p w = w"
  by (simp add: closeAndUnlink_def unlink_def)

subsection \<open>Removing directories\<close>

lemma resetFolder_absent:
  "\<not> fails env (Rm (path_join [rootDir, f])) \<Longrightarrow>
     \<not> existsSync (resetFolder env rootDir f w) (path_join [rootDir, f])"
  by (auto simp: resetFolder_def Let_def existsSync_def lookup_def rmSync_def map_of_filter_fst)

lemma resetFolder_mono:
  "existsSync (resetFolder env rootDir f w) q \<Longrightarrow> existsSync w q"
  by (auto simp: resetFolder_def Let_def existsSync_def lookup_def rmSync_def map_of_filter_fst
      split: if_splits)


lemma resetStep_full:
  "resetStep env rootDir (JStr ''full'') w =
     resetFolder env rootDir ''resourcepacks''
       (resetFolder env rootDir ''config'' (resetFolder env rootDir ''mods'' w))"
  by (simp add: resetStep_def wellKnown_def)

text \<open>
  After the reset step in mode \<open>full\<close>, a well-known folder whose removal did not fail
  does not exist: it is removed when its turn comes, and the removals after it only
  remove.
\<close>

lemma resetStep_absent:
  assumes "f \<in> set wellKnown" and "\<not> fails env (Rm (path_join [rootDir, f]))"
  shows "\<not> existsSync (resetStep env rootDir (JStr ''full'') w) (path_join [rootDir, f])"
proof -
  from assms(1) consider "f = ''mods''" | "f = ''config''" | "f = ''resourcepacks''"
    by (auto simp: wellKnown_def)
  then show ?thesis
  proof cases
    case 1
    with assms(2) have "\<not> existsSync (resetFolder env rootDir ''mods'' w) (path_join [rootDir, f])"
      by (simp add: resetFolder_absent)
    then show ?thesis
      unfolding resetStep_full by (blast dest: resetFolder_mono)
  next
    case 2
    with assms(2) have "\<not> existsSync (resetFolder env rootDir ''config''
        (resetFolder env rootDir ''mods'' w)) (path_join [rootDir, f])"
      by (simp add: resetFolder_absent)
    then show ?thesis
      unfolding resetStep_full by (blast dest: resetFolder_mono)
  next
    case 3
    with assms(2) show ?thesis
      unfolding resetStep_full by (simp add: resetFolder_absent)
  qed
qed





section \<open>What a download and a batch keep\<close>

lemma keeps_refl [simp]: "keeps w w"
  by (simp add: keeps_def noRm_def)

lemma keeps_trans: "keeps w w1 \<Longrightarrow> keeps w1 w2 \<Longrightarrow> keeps w w2"
  by (auto simp: keeps_def noRm_def)

lemma ensureDir_keeps: "ensureDir env p w = Inr w' \<Longrightarrow> keeps w w'"
  using ensureDir_calls [of env p w w']
  by (auto simp: keeps_def noRm_def dest: ensureDir_isDir)

lemma createWriteStream_keeps: "createWriteStream env p w = Inr w' \<Longrightarrow> keeps w w'"
  by (auto simp: keeps_def noRm_def isDir_def dest!: createWriteStream_nodes)

lemma sent_keeps: "keeps w (sent u w)"
  by (auto simp: keeps_def noRm_def isDir_def)

lemma closeAndUnlink_keeps: "keeps w (closeAndUnlink env p w)"
  using closeAndUnlink_nodes [of env p w] closeAndUnlink_calls [of env p w]
  by (auto simp: keeps_def noRm_def isDir_def)

lemma writeStream_keeps:
  "writeStream env p body w = Inr w' \<Longrightarrow> map_of (nodes w) (fs_key p) \<noteq> Some Dir \<Longrightarrow> keeps w w'"
  by (auto simp: keeps_def noRm_def isDir_def dest!: writeStream_nodes)

text \<open>
  A download keeps every directory: it creates directories, and it writes and unlinks
  only at a destination that it could open as a file.
\<close>

lemma downloadFile_keeps: "keeps w (snd (downloadFile env url dest w))"
proof (cases "ensureDir env (path_dirname dest) w")
  case (Inl e)
  then show ?thesis by (simp add: downloadFile_def)
next
  case w1: (Inr w1)
  then have k1: "keeps w w1" by (rule ensureDir_keeps)
  show ?thesis
  proof (cases "createWriteStream env dest w1")
    case (Inl e)
    have "keeps w1 (snd (downloadFile env url dest w))"
      using w1 Inl sent_keeps [of w1]
      by (auto simp: downloadFile_def split: json.splits net_result.splits)
    with k1 show ?thesis by (rule keeps_trans)
  next
    case w2: (Inr w2)
    then have k2: "keeps w1 w2" by (rule createWriteStream_keeps)
    from w2 have isfile: "map_of (nodes w2) (fs_key dest) \<noteq> Some Dir"
      by (simp add: createWriteStream_file)
    have "keeps w2 (snd (downloadFile env url dest w))"
    proof (cases url)
      case (JStr u)
      have s: "keeps w2 (sent u w2)" by (rule sent_keeps)
      have c: "keeps w2 (closeAndUnlink env dest (sent u w2))"
        by (rule keeps_trans [OF s closeAndUnlink_keeps])
      have wr: "keeps w2 w3" if "writeStream env dest body (sent u w2) = Inr w3" for body w3
      proof -
        from isfile have "map_of (nodes (sent u w2)) (fs_key dest) \<noteq> Some Dir" by simp
        with that have "keeps (sent u w2) w3" by (rule writeStream_keeps)
        with s show ?thesis by (rule keeps_trans)
      qed
      show ?thesis
        using w1 w2 JStr s c wr
        by (auto simp: downloadFile_def split: net_result.splits sum.splits)
    qed (use w1 w2 in \<open>simp_all add: downloadFile_def\<close>)
    with k1 k2 show ?thesis by (blast intro: keeps_trans)
  qed
qed

lemma placeItems_keeps: "keeps w (snd (placeItems env rootDir items w))"
proof (induction items arbitrary: w)
  case Nil
  then show ?case by simp
next
  case (Cons item items)
  show ?case
  proof (cases "skipped item")
    case True
    then show ?thesis using Cons.IH by simp
  next
    case False
    show ?thesis
    proof (cases "destPath rootDir item")
      case (Inl e)
      with False show ?thesis by simp
    next
      case (Inr dest)
      obtain r w' where d: "downloadFile env (getProp item ''url'') dest w = (r, w')"
        by (cases "downloadFile env (getProp item ''url'') dest w")
      then have k: "keeps w w'"
        using downloadFile_keeps [of w env "getProp item ''url''" dest] by simp
      show ?thesis
      proof (cases r)
        case Resolved
        with False Inr d
        have "placeItems env rootDir (item # items) w = placeItems env rootDir items w'"
          by simp
        with k Cons.IH [of w'] show ?thesis by (auto intro: keeps_trans)
      qed (use False Inr d k in simp_all)
    qed
  qed
qed


lemma ensureRoot_keeps: "ensureRoot env rootDir w = Inr (root, w1) \<Longrightarrow> keeps w w1"
  by (auto simp: ensureRoot_def dest: ensureDir_keeps split: json.splits sum.splits)


lemma snd_respond [simp]: "snd (respond a r) = snd r"
  by (simp add: respond_def split: settle.splits)

section \<open>Root resolution\<close>

lemma list_ex_find: "list_ex P xs = (find P xs \<noteq> None)"
  by (induction xs) auto

lemma find_Some_hd_filter: "find P xs = Some x \<Longrightarrow> list_ex P xs \<and> hd (filter P xs) = x"
  by (induction xs) (auto split: if_splits)


lemma first_hd: "first xs = (if xs = [] then None else Some (hd xs))"
  by (cases xs) (simp_all add: first_def)

text \<open>
  The list of instances is empty only where the platform is not supported; the last
  fallback of the resolution, \<open>getMinecraftPath()\<close>, is reached only then, and throws.
\<close>

lemma detectInstances_empty:
  "detectInstances env w = Inr [] \<Longrightarrow> getMinecraftPath env = Inl Unsupported_OS"
  by (auto simp: detectInstances_def getMinecraftPath_def Let_def split: if_splits sum.splits)



section \<open>The device token file\<close>

lemma getConfigPath_result:
  "getConfigPath env w = Inr (p, w1) \<Longrightarrow>
     p = path_join [configDir env, ''device_token.json''] \<and> existsSync w1 (configDir env)"
  by (auto simp: getConfigPath_def dest: mkdirSync_exists split: if_splits sum.splits)

lemma getConfigPath_again:
  "existsSync w (configDir env) \<Longrightarrow>
     getConfigPath env w = Inr (path_join [configDir env, ''device_token.json''], w)"
  by (simp add: getConfigPath_def)

lemma configDir_cong:
  "platform env' = platform env \<Longrightarrow> homedir env' = homedir env \<Longrightarrow> APPDATA env' = APPDATA env
     \<Longrightarrow> configDir env' = configDir env"
  by (simp add: configDir_def appDataDir_def split: option.splits)

section \<open>Destination paths\<close>




section \<open>The reset step\<close>

text \<open>
  C2, as the code has it. In a request of mode \<open>full\<close> that has items and whose root is
  resolved and ensured, the items are placed in the world that the reset step leaves,
  and in that world every well-known folder whose removal did not fail does not exist
  under the root. (A removal that fails is caught and ignored, lines 279-281.)
\<close>

theorem full_reset_clears:
  assumes "field body ''mode'' = JStr ''full''"
    and "\<not> noItems (field body ''items'')"
    and "resolveRoot env w (field body ''gameDir'') (field body ''instanceId'') = Inr rootDir"
    and "ensureRoot env rootDir w = Inr (root, w1)"
    and "f \<in> set wellKnown"
    and "\<not> fails env (Rm (path_join [root, f]))"
  shows "installFiles env w body =
           respond (field body ''autoTerminate'')
             (placeItems env root (elements (field body ''items''))
                (resetStep env root (JStr ''full'') w1))
    \<and> \<not> existsSync (resetStep env root (JStr ''full'') w1) (path_join [root, f])"
  using assms by (simp add: installFiles_def resetStep_absent)

text \<open>The folder \<open>mods\<close> of the example machine, there before the reset step and gone after.\<close>

theorem full_reset_clears_witness:
  "field (exampleRequest ''full'' [exampleItem ''mod'' ''http://x/a.jar'' ''a.jar'']) ''mode''
     = JStr ''full''
   \<and> \<not> noItems (field (exampleRequest ''full'' [exampleItem ''mod'' ''http://x/a.jar'' ''a.jar''])
         ''items'')
   \<and> ''mods'' \<in> set wellKnown
   \<and> \<not> fails exampleEnv (Rm (path_join [''/home/u/.minecraft'', ''mods'']))
   \<and> existsSync exampleWorld (path_join [''/home/u/.minecraft'', ''mods''])
   \<and> \<not> existsSync (resetStep exampleEnv ''/home/u/.minecraft'' (JStr ''full'') exampleWorld)
         (path_join [''/home/u/.minecraft'', ''mods''])"
proof -
  let ?body = "exampleRequest ''full'' [exampleItem ''mod'' ''http://x/a.jar'' ''a.jar'']"
  have h1: "field ?body ''mode'' = JStr ''full''" by code_simp
  have h2: "\<not> noItems (field ?body ''items'')" by code_simp
  have h3: "resolveRoot exampleEnv exampleWorld (field ?body ''gameDir'') (field ?body ''instanceId'')
      = Inr (JStr ''/home/u/.minecraft'')" by code_simp
  have h4: "ensureRoot exampleEnv (JStr ''/home/u/.minecraft'') exampleWorld
      = Inr (''/home/u/.minecraft'', exampleWorld)" by code_simp
  have h5: "''mods'' \<in> set wellKnown" by code_simp
  have h6: "\<not> fails exampleEnv (Rm (path_join [''/home/u/.minecraft'', ''mods'']))" by code_simp
  have before: "existsSync exampleWorld (path_join [''/home/u/.minecraft'', ''mods''])" by code_simp
  from full_reset_clears [OF h1 h2 h3 h4 h5 h6]
  have "\<not> existsSync (resetStep exampleEnv ''/home/u/.minecraft'' (JStr ''full'') exampleWorld)
         (path_join [''/home/u/.minecraft'', ''mods''])" by (rule conjunct2)
  with h1 h2 h5 h6 before show ?thesis by blast
qed

text \<open>
  C2 as stated fails where a removal fails: with the folder \<open>mods\<close> in use, it is still
  there after the reset step of a request of mode \<open>full\<close>, and the request goes on to
  succeed.
\<close>

theorem full_reset_counterexample:
  "field (exampleRequest ''full'' [exampleItem ''mod'' ''http://x/a.jar'' ''a.jar'']) ''mode''
     = JStr ''full''
   \<and> resolveRoot busyEnv exampleWorld JUndefined (JStr ''default'') = Inr (JStr ''/home/u/.minecraft'')
   \<and> ensureRoot busyEnv (JStr ''/home/u/.minecraft'') exampleWorld
       = Inr (''/home/u/.minecraft'', exampleWorld)
   \<and> existsSync (resetStep busyEnv ''/home/u/.minecraft'' (JStr ''full'') exampleWorld)
         (path_join [''/home/u/.minecraft'', ''mods''])
   \<and> fst (installFiles busyEnv exampleWorld
         (exampleRequest ''full'' [exampleItem ''mod'' ''http://x/a.jar'' ''a.jar'']))
       = Success False"
  by code_simp

section \<open>Patch mode\<close>

text \<open>
  C3, as the code has it. In a request whose mode is not \<open>full\<close> (so in mode \<open>patch\<close>),
  whatever the items, no directory is deleted: a directory that is there before the
  request is there after it, and no recursive removal is made.
\<close>

theorem patch_keeps_directories:
  assumes "field body ''mode'' \<noteq> JStr ''full''"
  shows "(isDir w k \<longrightarrow> isDir (snd (installFiles env w body)) k)
    \<and> (Rm p \<in> set (calls (snd (installFiles env w body))) \<longrightarrow> Rm p \<in> set (calls w))"
proof -
  have reset: "\<And>root w1. resetStep env root (field body ''mode'') w1 = w1"
    using assms by (simp add: resetStep_def)
  have "keeps w (snd (installFiles env w body))"
    by (auto simp: installFiles_def reset split: sum.splits
        intro: keeps_trans [OF ensureRoot_keeps placeItems_keeps])
  then show ?thesis unfolding keeps_def noRm_def by blast
qed

theorem patch_keeps_directories_witness:
  "field (exampleRequest ''patch'' [exampleItem ''mod'' ''http://x/missing.jar'' ''b.jar'']) ''mode''
     \<noteq> JStr ''full''
   \<and> isDir exampleWorld (True, [''home'', ''u'', ''.minecraft'', ''mods''])
   \<and> isDir (snd (installFiles exampleEnv exampleWorld
        (exampleRequest ''patch'' [exampleItem ''mod'' ''http://x/missing.jar'' ''b.jar''])))
        (True, [''home'', ''u'', ''.minecraft'', ''mods''])
   \<and> Rm ''/home/u/.minecraft/mods'' \<notin> set (calls (snd (installFiles exampleEnv exampleWorld
        (exampleRequest ''patch'' [exampleItem ''mod'' ''http://x/missing.jar'' ''b.jar'']))))"
proof -
  let ?body = "exampleRequest ''patch'' [exampleItem ''mod'' ''http://x/missing.jar'' ''b.jar'']"
  have h: "field ?body ''mode'' \<noteq> JStr ''full''" by code_simp
  have d: "isDir exampleWorld (True, [''home'', ''u'', ''.minecraft'', ''mods''])" by code_simp
  have c: "Rm ''/home/u/.minecraft/mods'' \<notin> set (calls exampleWorld)" by code_simp
  from patch_keeps_directories [OF h, of exampleWorld
      "(True, [''home'', ''u'', ''.minecraft'', ''mods''])" exampleEnv "''/home/u/.minecraft/mods''"] d c
  have "isDir (snd (installFiles exampleEnv exampleWorld ?body))
        (True, [''home'', ''u'', ''.minecraft'', ''mods''])
    \<and> Rm ''/home/u/.minecraft/mods'' \<notin> set (calls (snd (installFiles exampleEnv exampleWorld ?body)))"
    by blast
  with h d show ?thesis by blast
qed

text \<open>
  C3 as stated says that in mode \<open>patch\<close> only files are created. A request in mode
  \<open>patch\<close> for \<open>old.jar\<close>, answered with status 404, empties the \<open>old.jar\<close> that is there
  and unlinks it: a file is deleted.
\<close>

theorem patch_only_creates_counterexample:
  "field (exampleRequest ''patch'' [exampleItem ''mod'' ''http://x/missing.jar'' ''old.jar'']) ''mode''
     = JStr ''patch''
   \<and> lookup exampleWorld ''/home/u/.minecraft/mods/old.jar'' = Some (File ''old'')
   \<and> installFiles exampleEnv exampleWorld
        (exampleRequest ''patch'' [exampleItem ''mod'' ''http://x/missing.jar'' ''old.jar''])
      = (ServerError (Download_failed 404),
         \<lparr> nodes = AList.delete (fs_key ''/home/u/.minecraft/mods/old.jar'') (nodes exampleWorld),
           calls = [Open ''/home/u/.minecraft/mods/old.jar'', Get ''http://x/missing.jar'',
                    Unlink ''/home/u/.minecraft/mods/old.jar''] \<rparr>)
   \<and> lookup (snd (installFiles exampleEnv exampleWorld
        (exampleRequest ''patch'' [exampleItem ''mod'' ''http://x/missing.jar'' ''old.jar''])))
        ''/home/u/.minecraft/mods/old.jar'' = None"
  by code_simp

section \<open>A download that fails\<close>

text \<open>
  C4, as the code has it. In a call of \<open>downloadFile\<close> that could open its destination,
  a status other than 200, or an \<open>'error'\<close> event on the request, rejects the promise
  with the error, and the destination is unlinked afterwards, the failure of which is
  ignored: when the call is over, a file is at the destination exactly when the
  unlinking failed.
\<close>

theorem downloadFile_rejects:
  assumes "ensureDir env (path_dirname dest) w = Inr w1"
    and "createWriteStream env dest w1 = Inr w2"
    and "client_get env (take 6 u = ''https:'') u = ErrorEvent err
         \<or> client_get env (take 6 u = ''https:'') u = Response statusCode body \<and> statusCode \<noteq> 200"
  shows "fst (downloadFile env (JStr u) dest w) =
           (if client_get env (take 6 u = ''https:'') u = ErrorEvent err
            then Rejected (Request_error err) else Rejected (Download_failed statusCode))
    \<and> snd (downloadFile env (JStr u) dest w) = closeAndUnlink env dest (sent u w2)
    \<and> existsSync (snd (downloadFile env (JStr u) dest w)) dest = fails env (Unlink dest)"
proof -
  from assms(2) have f: "lookup (sent u w2) dest = Some (File [])"
    by (simp add: createWriteStream_lookup)
  have e: "existsSync (closeAndUnlink env dest (sent u w2)) dest = fails env (Unlink dest)"
  proof (cases "fails env (Unlink dest)")
    case True
    with f show ?thesis by (simp add: closeAndUnlink_stays existsSync_def)
  next
    case False
    with f show ?thesis by (simp add: closeAndUnlink_removes)
  qed
  from assms(3) show ?thesis
  proof
    assume "client_get env (take 6 u = ''https:'') u = ErrorEvent err"
    with assms(1,2) e show ?thesis by (simp add: downloadFile_def)
  next
    assume "client_get env (take 6 u = ''https:'') u = Response statusCode body \<and> statusCode \<noteq> 200"
    with assms(1,2) e show ?thesis by (simp add: downloadFile_def)
  qed
qed

theorem downloadFile_rejects_witness:
  "ensureDir exampleEnv (path_dirname ''/home/u/.minecraft/mods/b.jar'') exampleWorld = Inr exampleWorld
   \<and> createWriteStream exampleEnv ''/home/u/.minecraft/mods/b.jar'' exampleWorld
       = Inr (did (Open ''/home/u/.minecraft/mods/b.jar'')
               (nodes exampleWorld @ [(fs_key ''/home/u/.minecraft/mods/b.jar'', File [])]) exampleWorld)
   \<and> client_get exampleEnv (take 6 ''http://x/missing.jar'' = ''https:'') ''http://x/missing.jar''
       = Response 404 []
   \<and> fst (downloadFile exampleEnv (JStr ''http://x/missing.jar'') ''/home/u/.minecraft/mods/b.jar''
        exampleWorld) = Rejected (Download_failed 404)
   \<and> \<not> existsSync (snd (downloadFile exampleEnv (JStr ''http://x/missing.jar'')
        ''/home/u/.minecraft/mods/b.jar'' exampleWorld)) ''/home/u/.minecraft/mods/b.jar''"
proof -
  let ?dest = "''/home/u/.minecraft/mods/b.jar''"
  let ?u = "''http://x/missing.jar''"
  have h1: "ensureDir exampleEnv (path_dirname ?dest) exampleWorld = Inr exampleWorld"
    by code_simp
  have h2: "createWriteStream exampleEnv ?dest exampleWorld
       = Inr (did (Open ?dest) (nodes exampleWorld @ [(fs_key ?dest, File [])]) exampleWorld)"
    by code_simp
  have g: "client_get exampleEnv (take 6 ?u = ''https:'') ?u = Response 404 []"
    by code_simp
  then have h3: "client_get exampleEnv (take 6 ?u = ''https:'') ?u = ErrorEvent []
      \<or> client_get exampleEnv (take 6 ?u = ''https:'') ?u = Response 404 [] \<and> (404::nat) \<noteq> 200"
    by simp
  have nf: "\<not> fails exampleEnv (Unlink ?dest)" by code_simp
  note r = downloadFile_rejects [OF h1 h2 h3]
  from r [THEN conjunct1] g
  have a: "fst (downloadFile exampleEnv (JStr ?u) ?dest exampleWorld) = Rejected (Download_failed 404)"
    by simp
  from r [THEN conjunct2, THEN conjunct2] nf
  have b: "\<not> existsSync (snd (downloadFile exampleEnv (JStr ?u) ?dest exampleWorld)) ?dest"
    by simp
  from h1 h2 g a b show ?thesis by blast
qed

text \<open>
  C4 as stated fails where the unlinking fails: the status is 404, the promise is
  rejected, and the destination, which was not there before the call, is there after it,
  empty.
\<close>

theorem downloadFile_leaves_file_counterexample:
  "client_get lockedEnv (take 6 ''http://x/missing.jar'' = ''https:'') ''http://x/missing.jar''
       = Response 404 []
   \<and> \<not> existsSync exampleWorld ''/home/u/.minecraft/mods/b.jar''
   \<and> fst (downloadFile lockedEnv (JStr ''http://x/missing.jar'') ''/home/u/.minecraft/mods/b.jar''
        exampleWorld) = Rejected (Download_failed 404)
   \<and> lookup (snd (downloadFile lockedEnv (JStr ''http://x/missing.jar'')
        ''/home/u/.minecraft/mods/b.jar'' exampleWorld)) ''/home/u/.minecraft/mods/b.jar''
       = Some (File [])"
  by code_simp

section \<open>Validation\<close>

text \<open>
  C5. A request whose \<open>items\<close> is the empty list, or is not a list, is answered with the
  client error, and the world is as before: no directory created, nothing removed, no
  request sent.
\<close>

theorem installFiles_noItems:
  assumes "field body ''items'' = JArr [] \<or> (\<forall>xs. field body ''items'' \<noteq> JArr xs)"
  shows "installFiles env w body = (ClientError, w)"
proof -
  from assms have "noItems (field body ''items'')"
    by (auto simp: noItems_def split: json.splits)
  then show ?thesis by (simp add: installFiles_def)
qed

text \<open>An empty list, a string in place of the list, and no body at all.\<close>

theorem installFiles_noItems_witness:
  "field (exampleRequest ''full'' []) ''items'' = JArr []
   \<and> installFiles exampleEnv exampleWorld (exampleRequest ''full'' []) = (ClientError, exampleWorld)
   \<and> (\<forall>xs. field (JObj [(''mode'', JStr ''full''), (''items'', JStr ''a.jar'')]) ''items'' \<noteq> JArr xs)
   \<and> installFiles exampleEnv exampleWorld (JObj [(''mode'', JStr ''full''), (''items'', JStr ''a.jar'')])
       = (ClientError, exampleWorld)
   \<and> (\<forall>xs. field JNull ''items'' \<noteq> JArr xs)
   \<and> installFiles exampleEnv exampleWorld JNull = (ClientError, exampleWorld)"
proof -
  have h1: "field (exampleRequest ''full'' []) ''items'' = JArr []" by code_simp
  have h2: "\<forall>xs. field (JObj [(''mode'', JStr ''full''), (''items'', JStr ''a.jar'')]) ''items''
      \<noteq> JArr xs"
    by (simp add: field_def)
  have h3: "\<forall>xs. field JNull ''items'' \<noteq> JArr xs"
    by (simp add: field_def)
  from h1 have "installFiles exampleEnv exampleWorld (exampleRequest ''full'' [])
      = (ClientError, exampleWorld)"
    by (intro installFiles_noItems) simp
  moreover from h2 have "installFiles exampleEnv exampleWorld
      (JObj [(''mode'', JStr ''full''), (''items'', JStr ''a.jar'')]) = (ClientError, exampleWorld)"
    by (intro installFiles_noItems) simp
  moreover from h3 have "installFiles exampleEnv exampleWorld JNull = (ClientError, exampleWorld)"
    by (intro installFiles_noItems) simp
  ultimately show ?thesis using h1 h2 h3 by blast
qed

section \<open>The precedence of root resolution\<close>

text \<open>
  C6. The root that lines 255-270 resolve is the root of the specification's precedence
  (\<open>spec_resolve\<close>), taken over the instances that \<open>detectInstances\<close> finds and the base
  path that \<open>getMinecraftPath\<close> gives: a truthy \<open>gameDir\<close> as it is; else the first
  instance whose identifier is \<open>instanceId\<close>; else the first one whose identifier is
  \<open>default\<close>; else the first instance; else the base path, with no test that it exists.
  (By \<open>detectInstances_empty\<close> this last case is the one of a platform that is not
  supported, where the base path is the error \<open>Unsupported OS\<close>.)
\<close>

theorem resolveRoot_precedence:
  "resolveRoot env w gameDir instanceId =
     spec_resolve gameDir instanceId (detectInstances env w) (getMinecraftPath env)"
proof (cases "truthy gameDir")
  case True
  then show ?thesis by (simp add: resolveRoot_def spec_resolve_def)
next
  case False
  show ?thesis
  proof (cases "detectInstances env w")
    case (Inl e)
    with False show ?thesis by (simp add: resolveRoot_def spec_resolve_def)
  next
    case (Inr instances)
    show ?thesis
    proof (cases "find (\<lambda>i. JStr (inst_id i) = instanceId) instances")
      case (Some t)
      with False Inr show ?thesis
        by (auto simp: resolveRoot_def spec_resolve_def orElse_def dest: find_Some_hd_filter)
    next
      case n1: None
      show ?thesis
      proof (cases "find (\<lambda>i. inst_id i = ''default'') instances")
        case (Some t)
        with False Inr n1 show ?thesis
          using find_Some_hd_filter [OF Some]
          by (simp add: resolveRoot_def spec_resolve_def orElse_def list_ex_find)
      next
        case None
        with False Inr n1 show ?thesis
          by (simp add: resolveRoot_def spec_resolve_def orElse_def list_ex_find first_hd
              split: sum.splits)
      qed
    qed
  qed
qed


text \<open>
  An explicit root, the identifier of the version folder, an identifier that nothing
  has, and a platform that is not supported.
\<close>

theorem resolveRoot_precedence_witness:
  "resolveRoot exampleEnv exampleWorld (JStr ''/srv/mc'') (JStr ''default'') = Inr (JStr ''/srv/mc'')
   \<and> resolveRoot exampleEnv exampleWorld JUndefined (JStr ''ver_1_20_1_fabric_'')
       = Inr (JStr ''/home/u/.minecraft/versions/1.20.1 (fabric)'')
   \<and> resolveRoot exampleEnv exampleWorld JUndefined (JStr ''nowhere'') = Inr (JStr ''/home/u/.minecraft'')
   \<and> resolveRoot freebsdEnv exampleWorld JUndefined (JStr ''default'') = Inl Unsupported_OS"
proof -
  have "spec_resolve (JStr ''/srv/mc'') (JStr ''default'') (detectInstances exampleEnv exampleWorld)
      (getMinecraftPath exampleEnv) = Inr (JStr ''/srv/mc'')" by code_simp
  moreover have "spec_resolve JUndefined (JStr ''ver_1_20_1_fabric_'')
      (detectInstances exampleEnv exampleWorld) (getMinecraftPath exampleEnv)
      = Inr (JStr ''/home/u/.minecraft/versions/1.20.1 (fabric)'')" by code_simp
  moreover have "spec_resolve JUndefined (JStr ''nowhere'')
      (detectInstances exampleEnv exampleWorld) (getMinecraftPath exampleEnv)
      = Inr (JStr ''/home/u/.minecraft'')" by code_simp
  moreover have "spec_resolve JUndefined (JStr ''default'')
      (detectInstances freebsdEnv exampleWorld) (getMinecraftPath freebsdEnv)
      = Inl Unsupported_OS" by code_simp
  ultimately show ?thesis by (simp only: resolveRoot_precedence)
qed

section \<open>The device identity\<close>

text \<open>
  C8. A first run has no stored token to read, creates one and writes it to the token
  file. A later run on the same machine (same platform, home directory and \<open>APPDATA\<close>,
  the same \<open>JSON.parse\<close>, whatever its random numbers and clock) finds the file as the
  first run left it, in a world \<open>w3\<close> that may differ elsewhere, and reads it without
  failure. It returns the token of the first run and changes nothing, given that
  \<open>JSON.parse\<close> gives back the record that \<open>JSON.stringify\<close> wrote and that the token
  created is not the empty string.
\<close>

theorem device_token_round_trip:
  assumes "getConfigPath env w = Inr (p, w1)"
    and "readStoredToken env w1 p = None"
    and "writeFileSync env p (JSON_stringify env (tokenRecord env)) w1 = Inr w2"
    and "randomUUID env \<noteq> []"
    and "JSON_parse env (JSON_stringify env (tokenRecord env)) = Some (tokenRecord env)"
    and "platform env' = platform env" and "homedir env' = homedir env"
    and "APPDATA env' = APPDATA env" and "JSON_parse env' = JSON_parse env"
    and "\<not> fails env' (Read p)"
    and "lookup w3 p = lookup w2 p" and "existsSync w3 (configDir env)"
  shows "getOrCreateDeviceToken env w = Inr (JStr (randomUUID env), w2)
    \<and> getOrCreateDeviceToken env' w3 = Inr (JStr (randomUUID env), w3)"
proof -
  from assms(1,2,3) have run1: "getOrCreateDeviceToken env w = Inr (JStr (randomUUID env), w2)"
    by (simp add: getOrCreateDeviceToken_def)
  from assms(1) have p: "p = path_join [configDir env, ''device_token.json'']"
    by (simp add: getConfigPath_result)
  from assms(6,7,8) have c: "configDir env' = configDir env" by (rule configDir_cong)
  from assms(12) have "existsSync w3 (configDir env')" by (simp add: c)
  then have cfg: "getConfigPath env' w3 = Inr (p, w3)"
    unfolding p c [symmetric] by (rule getConfigPath_again)
  from assms(3,11) have stored: "lookup w3 p = Some (File (JSON_stringify env (tokenRecord env)))"
    by (simp add: writeFileSync_lookup)
  then have "readFileSync env' p w3 = Inr (JSON_stringify env (tokenRecord env))"
    using assms(10) by (simp add: readFileSync_def)
  with stored assms(4,5,9) have "readStoredToken env' w3 p = Some (JStr (randomUUID env))"
    by (simp add: readStoredToken_def existsSync_def tokenRecord_def)
  with cfg have "getOrCreateDeviceToken env' w3 = Inr (JStr (randomUUID env), w3)"
    by (simp add: getOrCreateDeviceToken_def)
  with run1 show ?thesis by simp
qed

text \<open>
  The example machine: the first run creates the directory and the file, and a later
  run, with another random UUID and a history of its own, returns the first token.
\<close>

theorem device_token_round_trip_witness:
  "getConfigPath exampleEnv exampleWorld
     = Inr (''/home/u/.config/lexten-bridge/device_token.json'', configuredWorld)
   \<and> readStoredToken exampleEnv configuredWorld ''/home/u/.config/lexten-bridge/device_token.json'' = None
   \<and> writeFileSync exampleEnv ''/home/u/.config/lexten-bridge/device_token.json''
        (JSON_stringify exampleEnv (tokenRecord exampleEnv)) configuredWorld = Inr tokenWorld
   \<and> randomUUID laterEnv \<noteq> randomUUID exampleEnv
   \<and> lookup freshTokenWorld ''/home/u/.config/lexten-bridge/device_token.json''
       = lookup tokenWorld ''/home/u/.config/lexten-bridge/device_token.json''
   \<and> getOrCreateDeviceToken exampleEnv exampleWorld
       = Inr (JStr ''123e4567-e89b-42d3-a456-426614174000'', tokenWorld)
   \<and> getOrCreateDeviceToken laterEnv freshTokenWorld
       = Inr (JStr ''123e4567-e89b-42d3-a456-426614174000'', freshTokenWorld)"
proof -
  let ?p = "''/home/u/.config/lexten-bridge/device_token.json''"
  have h1: "getConfigPath exampleEnv exampleWorld = Inr (?p, configuredWorld)" by code_simp
  have h2: "readStoredToken exampleEnv configuredWorld ?p = None" by code_simp
  have h3: "writeFileSync exampleEnv ?p (JSON_stringify exampleEnv (tokenRecord exampleEnv))
      configuredWorld = Inr tokenWorld" by code_simp
  have h4: "randomUUID exampleEnv \<noteq> []" by code_simp
  have h5: "JSON_parse exampleEnv (JSON_stringify exampleEnv (tokenRecord exampleEnv))
      = Some (tokenRecord exampleEnv)" by code_simp
  have h6: "platform laterEnv = platform exampleEnv" by (simp add: laterEnv_def)
  have h7: "homedir laterEnv = homedir exampleEnv" by (simp add: laterEnv_def)
  have h8: "APPDATA laterEnv = APPDATA exampleEnv" by (simp add: laterEnv_def)
  have h9: "JSON_parse laterEnv = JSON_parse exampleEnv" by (simp add: laterEnv_def)
  have h10: "\<not> fails laterEnv (Read ?p)" by code_simp
  have h11: "lookup freshTokenWorld ?p = lookup tokenWorld ?p" by code_simp
  have h12: "existsSync freshTokenWorld (configDir exampleEnv)" by code_simp
  have u: "randomUUID exampleEnv = ''123e4567-e89b-42d3-a456-426614174000''"
    by (simp add: exampleEnv_def)
  have n: "randomUUID laterEnv \<noteq> randomUUID exampleEnv" by code_simp
  from device_token_round_trip [OF h1 h2 h3 h4 h5 h6 h7 h8 h9 h10 h11 h12]
  have "getOrCreateDeviceToken exampleEnv exampleWorld
       = Inr (JStr ''123e4567-e89b-42d3-a456-426614174000'', tokenWorld)
    \<and> getOrCreateDeviceToken laterEnv freshTokenWorld
       = Inr (JStr ''123e4567-e89b-42d3-a456-426614174000'', freshTokenWorld)"
    unfolding u .
  with h1 h2 h3 h11 n show ?thesis by blast
qed






section \<open>A batch in which every item is skipped\<close>




end
